theory Spec2Isabelle
  imports Main "HOL-Library.Word"
begin

section \<open>Values, errors and the helpers of \<open>bpl_lib.helpers.Util\<close>\<close>

type_synonym byte = "8 word"

text \<open>
  Every exception the encoding can raise is a value. \<open>NotImplementedError\<close> is raised by
  the abstract \<open>_handle_transaction_type\<close>; \<open>ValueError\<close> is what Python's
  \<open>bytes(n)\<close> raises for a negative \<open>n\<close>; \<open>CollaboratorError\<close> stands for whatever an
  external primitive (address codec, signing, verification, a subclass hook) raises.
\<close>

datatype error =
    NotImplementedError
  | ValueError
  | MissingFeeError
  | MalformedHexError
  | RangeError
  | CollaboratorError string

definition bind_err :: "error + 'a \<Rightarrow> ('a \<Rightarrow> error + 'b) \<Rightarrow> error + 'b" where
  "bind_err r f = (case r of Inl e \<Rightarrow> Inl e | Inr v \<Rightarrow> f v)"

text \<open>Python truthiness of an optional string: \<open>None\<close> and \<open>''\<close> are falsy.\<close>

fun truthy :: "string option \<Rightarrow> bool" where
  "truthy None = False"
| "truthy (Some s) = (s \<noteq> [])"

text \<open>Python's \<open>bytes(n)\<close>: \<open>n\<close> zero bytes, \<open>ValueError\<close> for a negative count.\<close>

definition py_bytes :: "int \<Rightarrow> error + byte list" where
  "py_bytes n = (if n < 0 then Inl ValueError else Inr (replicate (nat n) 0))"

subsection \<open>Hex codec\<close>

text \<open>
  Modelled from the spec: \<open>hexlify\<close> and \<open>unhexlify\<close> of \<open>bpl_lib.helpers.Util\<close> are
  not among the sources. The spec has them hex-encode a byte sequence and hex-decode a
  string, the decoding failing on invalid input. The source calls the one helper
  \<open>unhexlify\<close> for keys, vendor field and signatures alike, so the model has one error,
  \<open>MalformedHexError\<close>, for all of them.
\<close>

definition hex_digit :: "nat \<Rightarrow> char" where
  "hex_digit n = ''0123456789abcdef'' ! (n mod 16)"

fun hexlify :: "byte list \<Rightarrow> string" where
  "hexlify [] = []"
| "hexlify (b # bs) = hex_digit (unat b div 16) # hex_digit (unat b mod 16) # hexlify bs"

definition hex_val :: "char \<Rightarrow> nat option" where
  "hex_val c =
     (let n = of_char c :: nat in
      if 48 \<le> n \<and> n \<le> 57 then Some (n - 48)
      else if 97 \<le> n \<and> n \<le> 102 then Some (n - 87)
      else if 65 \<le> n \<and> n \<le> 70 then Some (n - 55)
      else None)"

fun unhexlify :: "string \<Rightarrow> error + byte list" where
  "unhexlify [] = Inr []"
| "unhexlify [c] = Inl MalformedHexError"
| "unhexlify (c # d # rest) =
     (case (hex_val c, hex_val d) of
        (Some h, Some l) \<Rightarrow>
          (case unhexlify rest of
             Inl e \<Rightarrow> Inl e
           | Inr bs \<Rightarrow> Inr (of_nat (16 * h + l) # bs))
      | _ \<Rightarrow> Inl MalformedHexError)"

subsection \<open>Byte buffer\<close>

text \<open>
  Modelled from the spec: class \<open>Buffer\<close> of \<open>bpl_lib.helpers.Util\<close> is not among the
  sources. The spec has it an append-only byte writer with a single-byte write
  (exactly 1 byte), a 4-byte and an 8-byte little-endian unsigned write and a raw write,
  converted to an immutable byte sequence at the end; writing an unset (null) fee
  fails with \<open>MissingFeeError\<close>. The spec is silent about integers that do not fit the
  width; the model fails there with \<open>RangeError\<close> rather than write other bytes.
\<close>

type_synonym Buffer = "byte list"

definition Buffer_new :: Buffer where
  "Buffer_new = []"

definition le_bytes :: "nat \<Rightarrow> int \<Rightarrow> byte list" where
  "le_bytes k v = map (\<lambda>i. word_of_int (v div 256 ^ i mod 256)) [0..<k]"

definition write_bytes :: "byte list \<Rightarrow> Buffer \<Rightarrow> Buffer" where
  "write_bytes bs buffer = buffer @ bs"

definition write_byte :: "int \<Rightarrow> Buffer \<Rightarrow> error + Buffer" where
  "write_byte v buffer =
     (if 0 \<le> v \<and> v < 2 ^ 8 then Inr (buffer @ le_bytes 1 v) else Inl RangeError)"

definition write_int :: "int \<Rightarrow> Buffer \<Rightarrow> error + Buffer" where
  "write_int v buffer =
     (if 0 \<le> v \<and> v < 2 ^ 32 then Inr (buffer @ le_bytes 4 v) else Inl RangeError)"

definition write_long :: "int option \<Rightarrow> Buffer \<Rightarrow> error + Buffer" where
  "write_long ov buffer =
     (case ov of
        None \<Rightarrow> Inl MissingFeeError
      | Some v \<Rightarrow>
          if 0 \<le> v \<and> v < 2 ^ 64 then Inr (buffer @ le_bytes 8 v) else Inl RangeError)"

definition Buffer_to_bytes :: "Buffer \<Rightarrow> byte list" where
  "Buffer_to_bytes buffer = buffer"

section \<open>The transaction and its collaborators\<close>

text \<open>The values a field can hold in the dictionary returned by \<open>to_dict\<close>.\<close>

datatype pyval =
    PyNone
  | PyBool bool
  | PyInt int
  | PyStr string
  | PyDict "(string \<times> pyval) list"

text \<open>
  The fields set by \<open>__init__\<close>. \<open>_id\<close> and \<open>_type\<close> are \<open>tx_id\<close> and \<open>tx_type\<close> here
  (\<open>id\<close> is a HOL constant); the other fields keep their names without the underscore.
  A field that can be \<open>None\<close> is an option.
\<close>

record transaction =
  tx_id :: "string option"
  tx_type :: int
  recipient_id :: "string option"
  amount :: int
  fee :: "int option"
  asset :: "(string \<times> pyval) list"
  vendor_field :: "string option"
  timestamp :: int
  requester_public_key :: "string option"
  sender_public_key :: string
  signature :: "string option"
  sign_signature :: "string option"

text \<open>
  What the class imports and what a subclass overrides, taken as parameters:
  \<^item> \<open>sha256\<close>: \<open>bpl_lib.crypto.Crypto.sha256\<close>;
  \<^item> \<open>b58decode_check\<close>: \<open>base58.b58decode_check\<close>;
  \<^item> \<open>get_time\<close>: the value \<open>bpl_lib.time.Slot.get_time()\<close> returns at construction;
  \<^item> \<open>get_public_key\<close>: \<open>Keys(secret).get_public_key()\<close>;
  \<^item> \<open>Signature_new\<close>: \<open>Signature(secret)\<close>, which raises or gives the signer; the signer
    maps a hash to \<open>sign(hash)["signature"]\<close>, or raises;
  \<^item> \<open>signature_verify\<close>: \<open>Signature.verify(public_key, hash, signature)\<close>;
  \<^item> \<open>handle_transaction_type\<close>: the override of \<open>_handle_transaction_type\<close> in the
    concrete transaction class.
\<close>

record collaborators =
  sha256 :: "byte list \<Rightarrow> byte list"
  b58decode_check :: "string \<Rightarrow> error + byte list"
  get_time :: int
  get_public_key :: "string \<Rightarrow> string"
  Signature_new :: "string \<Rightarrow> error + (byte list \<Rightarrow> error + string)"
  signature_verify :: "string \<Rightarrow> byte list \<Rightarrow> string option \<Rightarrow> error + bool"
  handle_transaction_type :: "transaction \<Rightarrow> Buffer \<Rightarrow> error + Buffer"

text \<open>\<open>Transaction.__init__(type, secret)\<close>.\<close>

definition init :: "collaborators \<Rightarrow> int \<Rightarrow> string \<Rightarrow> transaction" where
  "init env type secret =
     \<lparr> tx_id = None,
       tx_type = type,
       recipient_id = None,
       amount = 0,
       fee = None,
       asset = [],
       vendor_field = None,
       timestamp = get_time env,
       requester_public_key = None,
       sender_public_key = get_public_key env secret,
       signature = None,
       sign_signature = None \<rparr>"

text \<open>\<open>Transaction._handle_transaction_type\<close> of the parent class itself: abstract.\<close>

definition handle_transaction_type_abstract :: "transaction \<Rightarrow> Buffer \<Rightarrow> error + Buffer" where
  "handle_transaction_type_abstract t buffer = Inl NotImplementedError"

section \<open>Encoding\<close>

text \<open>\<open>Transaction._handle_signature\<close>.\<close>

definition handle_signature ::
  "transaction \<Rightarrow> Buffer \<Rightarrow> bool \<Rightarrow> bool \<Rightarrow> error + Buffer" where
  "handle_signature t buffer skip_signature skip_second_signature =
     bind_err
       (if \<not> skip_signature \<and> truthy (signature t)
        then bind_err (unhexlify (the (signature t))) (\<lambda>s. Inr (write_bytes s buffer))
        else Inr buffer)
       (\<lambda>buffer.
          if \<not> skip_second_signature \<and> truthy (sign_signature t)
          then bind_err (unhexlify (the (sign_signature t))) (\<lambda>s. Inr (write_bytes s buffer))
          else Inr buffer)"

text \<open>
  What \<open>_handle_signature\<close> appends for one stored signature that is not skipped: its
  decoded bytes when the field is truthy, nothing when it is \<open>None\<close> or empty.
\<close>

definition signature_bytes :: "string option \<Rightarrow> error + byte list" where
  "signature_bytes s = (if truthy s then unhexlify (the s) else Inr [])"

text \<open>
  \<open>Transaction._to_bytes\<close>, one step for each statement of the source; a statement
  that fails ends the encoding with its error and no bytes.
\<close>

definition to_bytes ::
  "collaborators \<Rightarrow> transaction \<Rightarrow> bool \<Rightarrow> bool \<Rightarrow> error + byte list" where
  "to_bytes env t skip_signature skip_second_signature =
     bind_err (write_byte (tx_type t) Buffer_new) (\<lambda>buffer.
     bind_err (write_int (timestamp t) buffer) (\<lambda>buffer.
     bind_err
       (bind_err (unhexlify (sender_public_key t))
          (\<lambda>key. Inr (write_bytes key buffer))) (\<lambda>buffer.
     bind_err
       (if truthy (requester_public_key t)
        then bind_err (unhexlify (the (requester_public_key t)))
               (\<lambda>key. Inr (write_bytes key buffer))
        else Inr buffer) (\<lambda>buffer.
     bind_err
       (bind_err
          (if truthy (recipient_id t)
           then b58decode_check env (the (recipient_id t))
           else py_bytes 21)
          (\<lambda>recipient. Inr (write_bytes recipient buffer))) (\<lambda>buffer.
     bind_err
       (if truthy (vendor_field t)
        then bind_err (unhexlify (the (vendor_field t))) (\<lambda>vendor_field.
             bind_err (py_bytes (64 - int (length vendor_field))) (\<lambda>padding.
             Inr (write_bytes (vendor_field @ padding) buffer)))
        else bind_err (py_bytes 64) (\<lambda>zeros. Inr (write_bytes zeros buffer))) (\<lambda>buffer.
     bind_err (write_long (Some (amount t)) buffer) (\<lambda>buffer.
     bind_err (write_long (fee t) buffer) (\<lambda>buffer.
     bind_err (handle_transaction_type env t buffer) (\<lambda>buffer.
     bind_err (handle_signature t buffer skip_signature skip_second_signature) (\<lambda>buffer.
     Inr (Buffer_to_bytes buffer)))))))))))"

section \<open>Identifier, hash and dictionary\<close>

text \<open>\<open>Transaction._get_id\<close>.\<close>

definition get_id :: "collaborators \<Rightarrow> transaction \<Rightarrow> error + string" where
  "get_id env t =
     bind_err (to_bytes env t False False) (\<lambda>bs. Inr (hexlify (sha256 env bs)))"

text \<open>\<open>Transaction._get_hash\<close>; the source's defaults are \<open>True\<close>, \<open>True\<close>.\<close>

definition get_hash ::
  "collaborators \<Rightarrow> transaction \<Rightarrow> bool \<Rightarrow> bool \<Rightarrow> error + byte list" where
  "get_hash env t skip_signature skip_second_signature =
     bind_err (to_bytes env t skip_signature skip_second_signature)
       (\<lambda>bs. Inr (sha256 env bs))"

definition opt_str :: "string option \<Rightarrow> pyval" where
  "opt_str v = (case v of None \<Rightarrow> PyNone | Some s \<Rightarrow> PyStr s)"

definition opt_int :: "int option \<Rightarrow> pyval" where
  "opt_int v = (case v of None \<Rightarrow> PyNone | Some n \<Rightarrow> PyInt n)"

text \<open>
  \<open>Transaction.to_dict\<close>: the dictionary literal as an association list, in the order
  the source writes it. The method assigns no field.
\<close>

definition to_dict :: "transaction \<Rightarrow> (string \<times> pyval) list" where
  "to_dict t =
     [ (''type'', PyInt (tx_type t)),
       (''amount'', PyInt (amount t)),
       (''fee'', opt_int (fee t)),
       (''asset'', PyDict (asset t)),
       (''id'', opt_str (tx_id t)),
       (''recipientId'', opt_str (recipient_id t)),
       (''venderField'', opt_str (vendor_field t)),
       (''timestamp'', PyInt (timestamp t)),
       (''senderPublicKey'', PyStr (sender_public_key t)),
       (''signature'', opt_str (signature t)),
       (''signSignature'', opt_str (sign_signature t)) ]"

section \<open>Signing and verification\<close>

text \<open>
  \<open>Transaction._sign\<close>: Python builds \<open>Signature(secret)\<close> first, then evaluates the
  argument \<open>self._get_hash()\<close>, then calls \<open>sign\<close>; the new transaction is the old one
  with \<open>_signature\<close> assigned.
\<close>

definition sign :: "collaborators \<Rightarrow> string \<Rightarrow> transaction \<Rightarrow> error + transaction" where
  "sign env secret t =
     bind_err (Signature_new env secret) (\<lambda>signer.
     bind_err (get_hash env t True True) (\<lambda>h.
     bind_err (signer h) (\<lambda>s.
     Inr (t\<lparr>signature := Some s\<rparr>))))"

text \<open>\<open>Transaction._second_sign\<close>.\<close>

definition second_sign ::
  "collaborators \<Rightarrow> string \<Rightarrow> transaction \<Rightarrow> error + transaction" where
  "second_sign env secret t =
     bind_err (Signature_new env secret) (\<lambda>signer.
     bind_err (get_hash env t False True) (\<lambda>h.
     bind_err (signer h) (\<lambda>s.
     Inr (t\<lparr>sign_signature := Some s\<rparr>))))"

text \<open>
  \<open>Transaction.verify\<close> is the single statement
  \<open>Signature.verify(self._sender_public_key, self._get_hash(False, True), self._signature)\<close>.
  \<open>verify_args\<close> is the evaluation of the three arguments, \<open>verify\<close> the call; the
  method has no \<open>return\<close>, so what it returns is \<open>None\<close>.
\<close>

definition verify_args ::
  "collaborators \<Rightarrow> transaction \<Rightarrow> error + string \<times> byte list \<times> string option" where
  "verify_args env t =
     bind_err (get_hash env t False True) (\<lambda>h.
     Inr (sender_public_key t, h, signature t))"

definition verify :: "collaborators \<Rightarrow> transaction \<Rightarrow> error + pyval" where
  "verify env t =
     bind_err (verify_args env t) (\<lambda>(public_key, h, s).
     bind_err (signature_verify env public_key h s) (\<lambda>valid.
     Inr PyNone))"

text \<open>
  \<open>Transaction.second_verify\<close>:
  \<open>Signature.verify(self._sender_public_key, self._get_hash(False, False), self._sign_signature)\<close>.
\<close>

definition second_verify_args ::
  "collaborators \<Rightarrow> transaction \<Rightarrow> error + string \<times> byte list \<times> string option" where
  "second_verify_args env t =
     bind_err (get_hash env t False False) (\<lambda>h.
     Inr (sender_public_key t, h, sign_signature t))"

definition second_verify :: "collaborators \<Rightarrow> transaction \<Rightarrow> error + pyval" where
  "second_verify env t =
     bind_err (second_verify_args env t) (\<lambda>(public_key, h, s).
     bind_err (signature_verify env public_key h s) (\<lambda>valid.
     Inr PyNone))"

section \<open>A concrete environment and concrete transactions\<close>

text \<open>
  For evaluating the definitions: a time source fixed at 10000000, a key derivation that
  returns one 33-byte compressed key, a signer that returns one fixed signature, a
  verifier that accepts, an address codec that rejects, a type hook that appends no
  asset bytes, and, for the digest, the identity on byte sequences: an injective
  function, as a collision-free hash is in the symbolic model of cryptography, so that
  two digests differ exactly when the hashed byte sequences do.
\<close>

definition sample_key :: string where
  "sample_key = ''0279be667ef9dcbbac55a06295ce870b07029bfcdb2dce28d959f2815b16f81798''"

definition sample_env :: collaborators where
  "sample_env =
     \<lparr> sha256 = (\<lambda>bs. bs),
       b58decode_check = (\<lambda>s. Inl (CollaboratorError ''b58decode_check'')),
       get_time = 10000000,
       get_public_key = (\<lambda>secret. sample_key),
       Signature_new = (\<lambda>secret. Inr (\<lambda>h. Inr ''3006020101020101'')),
       signature_verify = (\<lambda>public_key h s. Inr True),
       handle_transaction_type = (\<lambda>t buffer. Inr buffer) \<rparr>"

text \<open>
  The scenario transaction: type 0, amount 100000000, fee 10000000, nothing else set
  after construction.
\<close>

definition sample_tx :: transaction where
  "sample_tx = (init sample_env 0 ''secret'')\<lparr>amount := 100000000, fee := Some 10000000\<rparr>"

text \<open>The same transaction with a first signature, and with both signatures, stored.\<close>

definition signed_tx :: transaction where
  "signed_tx = sample_tx\<lparr>signature := Some ''3006020101020101''\<rparr>"

definition twice_signed_tx :: transaction where
  "twice_signed_tx = signed_tx\<lparr>sign_signature := Some ''3006020102020102''\<rparr>"

text \<open>The 33 bytes of the sample key, and the 139 bytes of the scenario: type, timestamp,
  key, 21 and 64 zeros, amount, fee.\<close>

definition sample_key_bytes :: "byte list" where
  "sample_key_bytes =
     [0x02, 0x79, 0xbe, 0x66, 0x7e, 0xf9, 0xdc, 0xbb, 0xac, 0x55, 0xa0,
      0x62, 0x95, 0xce, 0x87, 0x0b, 0x07, 0x02, 0x9b, 0xfc, 0xdb, 0x2d,
      0xce, 0x28, 0xd9, 0x59, 0xf2, 0x81, 0x5b, 0x16, 0xf8, 0x17, 0x98]"

definition sample_bytes :: "byte list" where
  "sample_bytes =
     [0] @ [0x80, 0x96, 0x98, 0] @ sample_key_bytes @
     replicate 21 0 @ replicate 64 0 @
     [0, 0xe1, 0xf5, 0x05, 0, 0, 0, 0] @ [0x80, 0x96, 0x98, 0, 0, 0, 0, 0]"

text \<open>
  The layout the scenario names, for a sender key \<open>spk\<close>: type 0, timestamp 10000000,
  the key, 21 zero bytes, 64 zero bytes, amount 100000000, fee 10000000, the integers
  little-endian.
\<close>

definition scenario_bytes :: "byte list \<Rightarrow> byte list" where
  "scenario_bytes spk =
     [0] @ [0x80, 0x96, 0x98, 0] @ spk @ replicate 21 0 @ replicate 64 0 @
     [0, 0xe1, 0xf5, 0x05, 0, 0, 0, 0] @ [0x80, 0x96, 0x98, 0, 0, 0, 0, 0]"

text \<open>
  The fixed field order of the encoding, up to the fee: type (1 byte), timestamp (4),
  sender key, requester key, recipient section, vendor section, amount (8), fee (8).
\<close>

definition canonical_fields ::
  "transaction \<Rightarrow> byte list \<Rightarrow> byte list \<Rightarrow> byte list \<Rightarrow> byte list \<Rightarrow> int \<Rightarrow> byte list" where
  "canonical_fields t spk rpk recipient vendor f =
     le_bytes 1 (tx_type t) @ le_bytes 4 (timestamp t) @ spk @ rpk @ recipient @ vendor @
     le_bytes 8 (amount t) @ le_bytes 8 f"

text \<open>Transactions with a vendor field of 2 bytes and of 65 bytes, and one with no fee.\<close>

definition vendor_tx :: transaction where
  "vendor_tx = sample_tx\<lparr>vendor_field := Some ''6869''\<rparr>"

definition long_vendor_tx :: transaction where
  "long_vendor_tx = sample_tx\<lparr>vendor_field := Some
       ''ababababababababababababababababababababababababababababababababababababababababababababababababababababababababababababababababab''\<rparr>"

definition no_fee_tx :: transaction where
  "no_fee_tx = init sample_env 0 ''secret''"

definition no_fee_long_vendor_tx :: transaction where
  "no_fee_long_vendor_tx = long_vendor_tx\<lparr>fee := None\<rparr>"

section \<open>Lemmas about the encoding\<close>

lemma bind_err_simps [simp]:
  "bind_err (Inl e) f = Inl e"
  "bind_err (Inr v) f = f v"
  by (simp_all add: bind_err_def)

lemma bind_err_assoc: "bind_err (bind_err r f) g = bind_err r (\<lambda>v. bind_err (f v) g)"
  by (cases r) simp_all

lemma bind_err_Inr_right [simp]: "bind_err r Inr = r"
  by (cases r) simp_all

lemma handle_signature_skip [simp]: "handle_signature t buffer True True = Inr buffer"
  by (simp add: handle_signature_def)

text \<open>The signature sections come last: every encoding is the fully unsigned one, extended.\<close>

lemma to_bytes_split:
  "to_bytes env t ss sss =
     bind_err (to_bytes env t True True) (\<lambda>body. handle_signature t body ss sss)"
  by (simp add: to_bytes_def bind_err_assoc Buffer_to_bytes_def)

lemma handle_signature_include:
  "handle_signature t buffer False False =
     bind_err (signature_bytes (signature t)) (\<lambda>a.
     bind_err (signature_bytes (sign_signature t)) (\<lambda>b. Inr (buffer @ a @ b)))"
  "handle_signature t buffer False True =
     bind_err (signature_bytes (signature t)) (\<lambda>a. Inr (buffer @ a))"
  "handle_signature t buffer True False =
     bind_err (signature_bytes (sign_signature t)) (\<lambda>b. Inr (buffer @ b))"
  by (simp_all add: handle_signature_def signature_bytes_def write_bytes_def bind_err_assoc)

lemma handle_signature_unset_first:
  "signature t = None \<Longrightarrow>
     handle_signature t buffer ss sss = handle_signature t buffer True sss"
  by (simp add: handle_signature_def)

lemma length_le_bytes [simp]: "length (le_bytes k v) = k"
  by (simp add: le_bytes_def)

lemma le_bytes_1: "le_bytes (Suc 0) v = [word_of_int (v mod 256)]"
  by (simp add: le_bytes_def)

lemma le_bytes_4:
  "le_bytes 4 v = [word_of_int (v mod 256), word_of_int (v div 256 mod 256),
                   word_of_int (v div 256 ^ 2 mod 256), word_of_int (v div 256 ^ 3 mod 256)]"
  by (simp add: le_bytes_def upt_rec)

lemma le_bytes_8:
  "le_bytes 8 v = [word_of_int (v mod 256), word_of_int (v div 256 mod 256),
                   word_of_int (v div 256 ^ 2 mod 256), word_of_int (v div 256 ^ 3 mod 256),
                   word_of_int (v div 256 ^ 4 mod 256), word_of_int (v div 256 ^ 5 mod 256),
                   word_of_int (v div 256 ^ 6 mod 256), word_of_int (v div 256 ^ 7 mod 256)]"
  by (simp add: le_bytes_def upt_rec)

lemma hexlify_append [simp]: "hexlify (xs @ ys) = hexlify xs @ hexlify ys"
  by (induction xs) simp_all

lemma length_hexlify [simp]: "length (hexlify bs) = 2 * length bs"
  by (induction bs) simp_all

subsection \<open>The sample transactions, evaluated\<close>

lemmas eval_defs =
  to_bytes_def sample_env_def sample_tx_def signed_tx_def twice_signed_tx_def
  init_def sample_key_def sample_key_bytes_def sample_bytes_def hex_val_def hex_digit_def
  write_byte_def write_int_def write_long_def write_bytes_def
  le_bytes_1 le_bytes_4 le_bytes_8 py_bytes_def
  Buffer_new_def Buffer_to_bytes_def handle_signature_def get_id_def get_hash_def
  vendor_tx_def long_vendor_tx_def no_fee_tx_def no_fee_long_vendor_tx_def

lemma length_sample_bytes: "length sample_bytes = 139"
  by (simp add: sample_bytes_def sample_key_bytes_def)

lemma to_bytes_sample_tx: "to_bytes sample_env sample_tx a b = Inr sample_bytes"
  by (simp add: eval_defs)

lemma to_bytes_signed_tx:
  "to_bytes sample_env signed_tx True b = Inr sample_bytes"
  "to_bytes sample_env signed_tx False b = Inr (sample_bytes @ [0x30, 6, 2, 1, 1, 2, 1, 1])"
  by (simp_all add: eval_defs)

lemma to_bytes_twice_signed_tx:
  "to_bytes sample_env twice_signed_tx True True = Inr sample_bytes"
  "to_bytes sample_env twice_signed_tx False True =
     Inr (sample_bytes @ [0x30, 6, 2, 1, 1, 2, 1, 1])"
  "to_bytes sample_env twice_signed_tx False False =
     Inr (sample_bytes @ [0x30, 6, 2, 1, 1, 2, 1, 1] @ [0x30, 6, 2, 1, 2, 2, 1, 2])"
  by (simp_all add: eval_defs)

lemma sign_sample_tx: "sign sample_env ''secret'' sample_tx = Inr signed_tx"
  by (simp add: sign_def eval_defs)

lemma scenario_bytes_sample: "scenario_bytes sample_key_bytes = sample_bytes"
  by (simp add: scenario_bytes_def sample_bytes_def)

lemma sample_tx_fields:
  "tx_type sample_tx = 0" "timestamp sample_tx = 10000000"
  "amount sample_tx = 100000000" "fee sample_tx = Some 10000000"
  "requester_public_key sample_tx = None" "recipient_id sample_tx = None"
  "vendor_field sample_tx = None" "signature sample_tx = None"
  "sign_signature sample_tx = None" "sender_public_key sample_tx = sample_key"
  by (simp_all add: sample_tx_def init_def sample_env_def)

lemma signed_tx_fields:
  "tx_type signed_tx = 0" "timestamp signed_tx = 10000000"
  "amount signed_tx = 100000000" "fee signed_tx = Some 10000000"
  "requester_public_key signed_tx = None" "recipient_id signed_tx = None"
  "vendor_field signed_tx = None" "signature signed_tx = Some ''3006020101020101''"
  "sign_signature signed_tx = None" "sender_public_key signed_tx = sample_key"
  by (simp_all add: signed_tx_def sample_tx_def init_def sample_env_def)

lemma vendor_tx_fields:
  "tx_type vendor_tx = 0" "timestamp vendor_tx = 10000000"
  "amount vendor_tx = 100000000" "fee vendor_tx = Some 10000000"
  "requester_public_key vendor_tx = None" "recipient_id vendor_tx = None"
  "vendor_field vendor_tx = Some ''6869''" "signature vendor_tx = None"
  "sign_signature vendor_tx = None" "sender_public_key vendor_tx = sample_key"
  by (simp_all add: vendor_tx_def sample_tx_def init_def sample_env_def)

lemma unhexlify_sample_key: "unhexlify sample_key = Inr sample_key_bytes"
  by (simp add: sample_key_def sample_key_bytes_def hex_val_def)

lemma length_sample_key_bytes: "length sample_key_bytes = 33"
  by (simp add: sample_key_bytes_def)

lemma sample_hook: "handle_transaction_type sample_env tx = Inr"
  by (simp add: sample_env_def fun_eq_iff)

section \<open>Switches and stored signatures\<close>

text \<open>
  Claim C10. For a transaction whose \<open>signature\<close> and \<open>secondSignature\<close> are both unset,
  the encoder returns the same result for all four combinations of \<open>skip_signature\<close> and
  \<open>skip_second_signature\<close>; so \<open>_get_hash\<close> does not depend on the switches either, and
  \<open>_get_id\<close> is the hex digest of the hash that \<open>_sign\<close> signs, the hash of the fully
  unsigned encoding.
\<close>

theorem unsigned_encoding_ignores_switches:
  assumes "signature t = None" and "sign_signature t = None"
  shows "to_bytes env t skip_signature skip_second_signature = to_bytes env t True True
       \<and> get_hash env t skip_signature skip_second_signature = get_hash env t True True
       \<and> get_id env t = bind_err (get_hash env t True True) (\<lambda>h. Inr (hexlify h))"
proof -
  have hs: "handle_signature t body a b = Inr body" for body a b
    using assms by (simp add: handle_signature_def)
  have tb: "to_bytes env t a b = to_bytes env t True True" for a b
    by (subst to_bytes_split) (simp add: hs)
  show ?thesis
    by (simp add: get_hash_def get_id_def tb [of False False]
        tb [of skip_signature skip_second_signature] bind_err_assoc)
qed

text \<open>The scenario transaction, unsigned, encoded with both signatures requested.\<close>

theorem unsigned_encoding_ignores_switches_witness:
  "signature sample_tx = None \<and> sign_signature sample_tx = None
   \<and> to_bytes sample_env sample_tx False False = to_bytes sample_env sample_tx True True
   \<and> get_hash sample_env sample_tx False False = get_hash sample_env sample_tx True True
   \<and> get_id sample_env sample_tx =
       bind_err (get_hash sample_env sample_tx True True) (\<lambda>h. Inr (hexlify h))"
proof -
  have s1: "signature sample_tx = None" and s2: "sign_signature sample_tx = None"
    by (simp_all add: sample_tx_def init_def)
  from unsigned_encoding_ignores_switches [OF s1 s2, of sample_env False False] s1 s2
  show ?thesis by simp
qed

text \<open>
  Claim C4, as amended. Encoding a transaction whose \<open>signature\<close> is unset with
  \<open>skip_signature = False\<close> raises nothing on that account: \<open>_handle_signature\<close> leaves
  the signature section out, without placeholder bytes, and the result, bytes or
  error, is the one that \<open>skip_signature = True\<close> gives.
\<close>

theorem unset_signature_is_omitted:
  assumes "signature t = None"
  shows "to_bytes env t False skip_second_signature = to_bytes env t True skip_second_signature"
  by (subst to_bytes_split, subst (2) to_bytes_split)
     (simp add: handle_signature_unset_first [OF assms, of _ False])

theorem unset_signature_is_omitted_witness:
  "signature sample_tx = None
   \<and> to_bytes sample_env sample_tx False True = to_bytes sample_env sample_tx True True"
proof -
  have s1: "signature sample_tx = None"
    by (simp add: sample_tx_def init_def)
  from unset_signature_is_omitted [OF s1, of sample_env True] s1
  show ?thesis by simp
qed

text \<open>
  The claim as stated asks for an error. The scenario transaction has no signature, and
  its encoding with the signature requested is the 139 bytes, not an error.
\<close>

theorem unset_signature_raises_counterexample:
  "signature sample_tx = None
   \<and> to_bytes sample_env sample_tx False True = Inr sample_bytes
   \<and> \<not> isl (to_bytes sample_env sample_tx False True)"
  by (simp add: to_bytes_sample_tx) (simp add: sample_tx_def init_def)

section \<open>The identifier\<close>

text \<open>
  Claim C1, as amended. \<open>_get_id\<close> encodes with both switches \<open>False\<close>, which requests
  both signature sections: the identifier is the hex digest of the hash of the fully
  unsigned bytes followed by the bytes of the stored first signature, if any, and of
  the stored second signature, if any. It is the digest of the unsigned bytes alone
  only while no signature is stored.
\<close>

theorem get_id_covers_stored_signatures:
  "get_id env t =
     bind_err (to_bytes env t True True) (\<lambda>body.
     bind_err (signature_bytes (signature t)) (\<lambda>first.
     bind_err (signature_bytes (sign_signature t)) (\<lambda>second.
     Inr (hexlify (sha256 env (body @ first @ second))))))"
  by (simp add: get_id_def to_bytes_split [of env t False False] handle_signature_include
      bind_err_assoc)

theorem get_id_covers_stored_signatures_witness:
  "get_id sample_env twice_signed_tx =
     Inr (hexlify (sha256 sample_env
            (sample_bytes @ [0x30, 6, 2, 1, 1, 2, 1, 1] @ [0x30, 6, 2, 1, 2, 2, 1, 2])))"
  using get_id_covers_stored_signatures [of sample_env twice_signed_tx]
  by (simp add: to_bytes_twice_signed_tx signature_bytes_def)
     (simp add: twice_signed_tx_def signed_tx_def hex_val_def)

text \<open>
  The claim as stated has the identifier exclude both signature sections and stay the
  same when the transaction is signed. Signing the scenario transaction changes the
  bytes hashed for the identifier from the 139 unsigned bytes to those followed by the
  signature, and with them the identifier.
\<close>

theorem get_id_stable_counterexample:
  "sign sample_env ''secret'' sample_tx = Inr signed_tx
   \<and> to_bytes sample_env signed_tx True True = Inr sample_bytes
   \<and> get_id sample_env sample_tx = Inr (hexlify (sha256 sample_env sample_bytes))
   \<and> get_id sample_env signed_tx \<noteq> Inr (hexlify (sha256 sample_env sample_bytes))
   \<and> get_id sample_env signed_tx \<noteq> get_id sample_env sample_tx"
  by (simp add: sign_sample_tx to_bytes_signed_tx to_bytes_sample_tx get_id_def)
     (simp add: sample_env_def)

section \<open>Signing\<close>

text \<open>
  Claim C8. \<open>_second_sign(secret)\<close> signs the hash of the fully unsigned bytes followed
  by the bytes of the stored first signature, whatever second signature is stored, and
  stores the result in \<open>_sign_signature\<close>. When the first signature is unset it does
  not fail for that: the hashed bytes are the unsigned bytes with no signature bytes.
\<close>

theorem second_sign_hashes_first_signature:
  assumes "Signature_new env secret = Inr signer"
      and "to_bytes env t True True = Inr body"
      and "signature_bytes (signature t) = Inr first"
  shows "second_sign env secret t =
           bind_err (signer (sha256 env (body @ first)))
             (\<lambda>s. Inr (t\<lparr>sign_signature := Some s\<rparr>))
         \<and> (signature t = None \<longrightarrow> first = [])"
  using assms
  by (auto simp: second_sign_def get_hash_def to_bytes_split [of env t False True]
      handle_signature_include signature_bytes_def)

text \<open>
  The signed scenario transaction, and the unsigned one, where the hashed bytes are the
  139 unsigned bytes.
\<close>

theorem second_sign_hashes_first_signature_witness:
  "Signature_new sample_env ''second'' = Inr (\<lambda>h. Inr ''3006020101020101'')
   \<and> to_bytes sample_env signed_tx True True = Inr sample_bytes
   \<and> signature_bytes (signature signed_tx) = Inr [0x30, 6, 2, 1, 1, 2, 1, 1]
   \<and> second_sign sample_env ''second'' signed_tx =
       Inr (signed_tx\<lparr>sign_signature := Some ''3006020101020101''\<rparr>)
   \<and> signature sample_tx = None
   \<and> second_sign sample_env ''second'' sample_tx =
       Inr (sample_tx\<lparr>sign_signature := Some ''3006020101020101''\<rparr>)"
proof -
  have a: "Signature_new sample_env ''second'' = Inr (\<lambda>h. Inr ''3006020101020101'')"
    by (simp add: sample_env_def)
  have b: "to_bytes sample_env signed_tx True True = Inr sample_bytes"
    by (rule to_bytes_signed_tx)
  have c: "signature_bytes (signature signed_tx) = Inr [0x30, 6, 2, 1, 1, 2, 1, 1]"
    by (simp add: signature_bytes_def signed_tx_def hex_val_def)
  have b': "to_bytes sample_env sample_tx True True = Inr sample_bytes"
    by (rule to_bytes_sample_tx)
  have n: "signature sample_tx = None"
    by (simp add: sample_tx_def init_def)
  have c': "signature_bytes (signature sample_tx) = Inr []"
    by (simp add: signature_bytes_def n)
  from second_sign_hashes_first_signature [OF a b c]
       second_sign_hashes_first_signature [OF a b' c'] a b c n
  show ?thesis by simp
qed

section \<open>The fee\<close>

text \<open>
  Claim C5, as amended. Encoding a transaction whose fee is unset yields no bytes: it
  raises. The error is \<open>MissingFeeError\<close> whenever the transaction encodes once a fee is
  set, that is, whenever the missing fee is its only defect; a field written before
  the fee that is malformed raises its own error first.
\<close>

theorem unset_fee_raises:
  assumes "fee t = None"
  shows "isl (to_bytes env t skip_signature skip_second_signature)
       \<and> (\<forall>f bs. to_bytes env (t\<lparr>fee := Some f\<rparr>) skip_signature skip_second_signature = Inr bs
            \<longrightarrow> to_bytes env t skip_signature skip_second_signature = Inl MissingFeeError)"
  using assms
  by (auto simp: to_bytes_def bind_err_def write_long_def split: sum.splits if_splits)

text \<open>The transaction as \<open>__init__\<close> leaves it: amount 0, no fee.\<close>

theorem unset_fee_raises_witness:
  "fee no_fee_tx = None
   \<and> to_bytes sample_env (no_fee_tx\<lparr>fee := Some 10000000\<rparr>) True True =
       Inr ([0] @ [0x80, 0x96, 0x98, 0] @ sample_key_bytes @ replicate 21 0 @ replicate 64 0 @
            [0, 0, 0, 0, 0, 0, 0, 0] @ [0x80, 0x96, 0x98, 0, 0, 0, 0, 0])
   \<and> isl (to_bytes sample_env no_fee_tx True True)
   \<and> to_bytes sample_env no_fee_tx True True = Inl MissingFeeError"
proof -
  have n: "fee no_fee_tx = None"
    by (simp add: no_fee_tx_def init_def)
  have e: "to_bytes sample_env (no_fee_tx\<lparr>fee := Some 10000000\<rparr>) True True =
       Inr ([0] @ [0x80, 0x96, 0x98, 0] @ sample_key_bytes @ replicate 21 0 @ replicate 64 0 @
            [0, 0, 0, 0, 0, 0, 0, 0] @ [0x80, 0x96, 0x98, 0, 0, 0, 0, 0])"
    by (simp add: eval_defs)
  from unset_fee_raises [OF n, of sample_env True True] e have
    "to_bytes sample_env no_fee_tx True True = Inl MissingFeeError"
    by blast
  with n e show ?thesis by simp
qed

text \<open>
  The claim as stated has every transaction with no fee raise \<open>MissingFeeError\<close>. With a
  vendor field of 65 bytes as well, \<open>bytes(64 - 65)\<close> raises \<open>ValueError\<close> before the fee
  is written.
\<close>

theorem unset_fee_error_counterexample:
  "fee no_fee_long_vendor_tx = None
   \<and> to_bytes sample_env no_fee_long_vendor_tx True True = Inl ValueError
   \<and> to_bytes sample_env no_fee_long_vendor_tx True True \<noteq> Inl MissingFeeError"
  by (simp add: eval_defs)

section \<open>Layout of the encoding\<close>

lemma handle_signature_appends:
  "handle_signature t body ss sss = Inr bs \<Longrightarrow> \<exists>sigs. bs = body @ sigs"
  by (auto simp: handle_signature_def bind_err_def write_bytes_def split: sum.splits if_splits)

lemma isl_bind_err: "isl r \<Longrightarrow> isl (bind_err r f)"
  by (cases r) simp_all

lemma bind_err_InrD: "bind_err r f = Inr y \<Longrightarrow> \<exists>x. r = Inr x \<and> f x = Inr y"
  by (cases r) simp_all

text \<open>What a successful unsigned encoding consists of, up to the type hook.\<close>

lemma to_bytes_fields:
  assumes "to_bytes env t True True = Inr body"
  shows "\<exists>spk rpk recipient vendor f.
     unhexlify (sender_public_key t) = Inr spk
    \<and> (if truthy (requester_public_key t)
        then unhexlify (the (requester_public_key t)) = Inr rpk else rpk = [])
    \<and> (if truthy (recipient_id t)
        then b58decode_check env (the (recipient_id t)) = Inr recipient
        else recipient = replicate 21 0)
    \<and> (if truthy (vendor_field t)
        then \<exists>raw. unhexlify (the (vendor_field t)) = Inr raw \<and> length raw \<le> 64
               \<and> vendor = raw @ replicate (64 - length raw) 0
        else vendor = replicate 64 0)
    \<and> fee t = Some f
    \<and> 0 \<le> tx_type t \<and> tx_type t < 2 ^ 8
    \<and> 0 \<le> timestamp t \<and> timestamp t < 2 ^ 32
    \<and> 0 \<le> amount t \<and> amount t < 2 ^ 64
    \<and> 0 \<le> f \<and> f < 2 ^ 64
    \<and> handle_transaction_type env t
         (le_bytes 1 (tx_type t) @ le_bytes 4 (timestamp t) @ spk @ rpk @
          recipient @ vendor @ le_bytes 8 (amount t) @ le_bytes 8 f) = Inr body"
  using assms
  by (auto simp: to_bytes_def bind_err_def write_byte_def write_int_def write_long_def
      write_bytes_def py_bytes_def Buffer_new_def Buffer_to_bytes_def nat_diff_distrib
      split: sum.splits if_splits option.splits)

lemma long_vendor_rejected:
  assumes "vendor_field t = Some vf" and "unhexlify vf = Inr raw" and "64 < length raw"
  shows "isl (to_bytes env t ss sss)"
proof -
  have ne: "vf \<noteq> []"
    using assms by auto
  have pb: "py_bytes (64 - int (length raw)) = Inl ValueError"
    using assms by (simp add: py_bytes_def)
  have "isl (to_bytes env t True True)"
    using assms ne pb
    by (simp add: to_bytes_def bind_err_def split: sum.splits)
  then show ?thesis
    by (subst to_bytes_split) (rule isl_bind_err)
qed

text \<open>
  With the hook of the parent class itself, which raises \<open>NotImplementedError\<close>, no
  encoding returns bytes: the claims are about concrete transaction classes.
\<close>

lemma to_bytes_abstract:
  assumes "handle_transaction_type env = handle_transaction_type_abstract"
  shows "isl (to_bytes env t skip_signature skip_second_signature)"
proof (cases "to_bytes env t True True")
  case (Inl e)
  then show ?thesis
    by (subst to_bytes_split) simp
next
  case (Inr body)
  from to_bytes_fields [OF Inr] obtain buffer where
    "handle_transaction_type env t buffer = Inr body"
    by blast
  with assms show ?thesis
    by (simp add: handle_transaction_type_abstract_def)
qed

text \<open>Every successful encoding has the layout, when the type hook only appends.\<close>

lemma to_bytes_layout:
  assumes hook: "\<And>buffer buffer'. handle_transaction_type env t buffer = Inr buffer'
                   \<Longrightarrow> \<exists>asset. buffer' = buffer @ asset"
  shows "(\<forall>bs. to_bytes env t skip_signature skip_second_signature = Inr bs \<longrightarrow>
           (\<exists>spk rpk recipient vendor f asset sigs.
              bs = le_bytes 1 (tx_type t) @ le_bytes 4 (timestamp t) @ spk @ rpk @
                   recipient @ vendor @ le_bytes 8 (amount t) @ le_bytes 8 f @ asset @ sigs
            \<and> unhexlify (sender_public_key t) = Inr spk
            \<and> (if truthy (requester_public_key t)
                then unhexlify (the (requester_public_key t)) = Inr rpk else rpk = [])
            \<and> fee t = Some f
            \<and> (\<not> truthy (recipient_id t) \<longrightarrow> recipient = replicate 21 0)
            \<and> (\<not> truthy (vendor_field t) \<longrightarrow> vendor = replicate 64 0)
            \<and> (\<forall>vf raw. vendor_field t = Some vf \<and> unhexlify vf = Inr raw \<longrightarrow>
                  length raw \<le> 64 \<and> vendor = raw @ replicate (64 - length raw) 0)))
       \<and> (\<forall>vf raw. vendor_field t = Some vf \<and> unhexlify vf = Inr raw \<and> 64 < length raw \<longrightarrow>
             isl (to_bytes env t skip_signature skip_second_signature))"
proof (intro conjI allI impI)
  fix bs
  assume ok: "to_bytes env t skip_signature skip_second_signature = Inr bs"
  then have "bind_err (to_bytes env t True True)
               (\<lambda>body. handle_signature t body skip_signature skip_second_signature) = Inr bs"
    by (subst (asm) to_bytes_split)
  from bind_err_InrD [OF this] obtain body where body: "to_bytes env t True True = Inr body"
    and hs: "handle_signature t body skip_signature skip_second_signature = Inr bs"
    by blast
  from handle_signature_appends [OF hs] obtain sigs where sigs: "bs = body @ sigs"
    by blast
  from to_bytes_fields [OF body] obtain spk rpk recipient vendor f where
    spk: "unhexlify (sender_public_key t) = Inr spk"
    and rpk: "if truthy (requester_public_key t)
                then unhexlify (the (requester_public_key t)) = Inr rpk else rpk = []"
    and rcp: "if truthy (recipient_id t)
                then b58decode_check env (the (recipient_id t)) = Inr recipient
                else recipient = replicate 21 0"
    and vnd: "if truthy (vendor_field t)
                then \<exists>raw. unhexlify (the (vendor_field t)) = Inr raw \<and> length raw \<le> 64
                       \<and> vendor = raw @ replicate (64 - length raw) 0
                else vendor = replicate 64 0"
    and fee: "fee t = Some f"
    and hk: "handle_transaction_type env t
               (le_bytes 1 (tx_type t) @ le_bytes 4 (timestamp t) @ spk @ rpk @
                recipient @ vendor @ le_bytes 8 (amount t) @ le_bytes 8 f) = Inr body"
    by blast
  from hook [OF hk] obtain asset where asset: "body =
       (le_bytes 1 (tx_type t) @ le_bytes 4 (timestamp t) @ spk @ rpk @
        recipient @ vendor @ le_bytes 8 (amount t) @ le_bytes 8 f) @ asset"
    by blast
  have r1: "\<not> truthy (recipient_id t) \<longrightarrow> recipient = replicate 21 0"
    using rcp by (simp split: if_splits)
  have v1: "\<not> truthy (vendor_field t) \<longrightarrow> vendor = replicate 64 0"
    using vnd by (simp split: if_splits)
  have v2: "\<forall>vf raw. vendor_field t = Some vf \<and> unhexlify vf = Inr raw \<longrightarrow>
              length raw \<le> 64 \<and> vendor = raw @ replicate (64 - length raw) 0"
  proof (intro allI impI)
    fix vf raw
    assume a: "vendor_field t = Some vf \<and> unhexlify vf = Inr raw"
    show "length raw \<le> 64 \<and> vendor = raw @ replicate (64 - length raw) 0"
    proof (cases "vf = []")
      case True
      with a have "raw = []" by simp
      moreover from True a vnd have "vendor = replicate 64 0" by simp
      ultimately show ?thesis by simp
    next
      case False
      with a vnd show ?thesis by simp
    qed
  qed
  have eq: "bs = le_bytes 1 (tx_type t) @ le_bytes 4 (timestamp t) @ spk @ rpk @
                 recipient @ vendor @ le_bytes 8 (amount t) @ le_bytes 8 f @ asset @ sigs"
    unfolding sigs asset by (simp only: append_assoc)
  show "\<exists>spk rpk recipient vendor f asset sigs.
              bs = le_bytes 1 (tx_type t) @ le_bytes 4 (timestamp t) @ spk @ rpk @
                   recipient @ vendor @ le_bytes 8 (amount t) @ le_bytes 8 f @ asset @ sigs
            \<and> unhexlify (sender_public_key t) = Inr spk
            \<and> (if truthy (requester_public_key t)
                then unhexlify (the (requester_public_key t)) = Inr rpk else rpk = [])
            \<and> fee t = Some f
            \<and> (\<not> truthy (recipient_id t) \<longrightarrow> recipient = replicate 21 0)
            \<and> (\<not> truthy (vendor_field t) \<longrightarrow> vendor = replicate 64 0)
            \<and> (\<forall>vf raw. vendor_field t = Some vf \<and> unhexlify vf = Inr raw \<longrightarrow>
                  length raw \<le> 64 \<and> vendor = raw @ replicate (64 - length raw) 0)"
    using eq spk rpk fee r1 v1 v2 by blast
next
  fix vf raw
  assume "vendor_field t = Some vf \<and> unhexlify vf = Inr raw \<and> 64 < length raw"
  then show "isl (to_bytes env t skip_signature skip_second_signature)"
    using long_vendor_rejected [of t vf raw env] by blast
qed

text \<open>Transactions whose fields are well-formed do encode, and to these bytes.\<close>

lemma to_bytes_unsigned_produced:
  assumes "0 \<le> tx_type t" and "tx_type t < 2 ^ 8"
      and "0 \<le> timestamp t" and "timestamp t < 2 ^ 32"
      and "unhexlify (sender_public_key t) = Inr spk"
      and "if truthy (requester_public_key t)
           then unhexlify (the (requester_public_key t)) = Inr rpk else rpk = []"
      and "if truthy (recipient_id t)
           then b58decode_check env (the (recipient_id t)) = Inr recipient
           else recipient = replicate 21 0"
      and "if truthy (vendor_field t)
           then unhexlify (the (vendor_field t)) = Inr raw else raw = []"
      and "length raw \<le> 64"
      and "0 \<le> amount t" and "amount t < 2 ^ 64"
      and "fee t = Some f" and "0 \<le> f" and "f < 2 ^ 64"
      and "handle_transaction_type env t
             (canonical_fields t spk rpk recipient (raw @ replicate (64 - length raw) 0) f) =
           Inr (canonical_fields t spk rpk recipient (raw @ replicate (64 - length raw) 0) f
                @ asset_bytes)"
  shows "to_bytes env t True True =
           Inr (canonical_fields t spk rpk recipient (raw @ replicate (64 - length raw) 0) f
                @ asset_bytes)"
proof -
  have pad: "py_bytes (64 - int (length raw)) = Inr (replicate (64 - length raw) 0)"
    using assms(9) by (simp add: py_bytes_def nat_diff_distrib)
  have p21: "py_bytes 21 = Inr (replicate 21 0)" and p64: "py_bytes 64 = Inr (replicate 64 0)"
    by (simp_all add: py_bytes_def)
  show ?thesis
    using assms(1-8,10-15) pad p21 p64
    by (simp add: to_bytes_def write_byte_def write_int_def write_long_def write_bytes_def
        Buffer_new_def Buffer_to_bytes_def canonical_fields_def split: if_splits)
qed

lemma handle_signature_produced:
  assumes "if ss then first = [] else signature_bytes (signature t) = Inr first"
      and "if sss then second = [] else signature_bytes (sign_signature t) = Inr second"
  shows "handle_signature t buffer ss sss = Inr (buffer @ first @ second)"
  using assms
  by (cases ss; cases sss) (simp_all add: handle_signature_include)

text \<open>
  Claim C6. A transaction whose fields are well-formed (type, timestamp, amount and fee
  in range, keys and stored signatures that decode, a vendor field that decodes to
  \<open>L \<le> 64\<close> raw bytes, a type hook that appends its asset bytes) encodes, and the
  encoding is exactly the fields in their fixed order, the asset bytes and the requested
  signatures, where the recipient section is 21 zero bytes when \<open>recipientId\<close> is
  absent and the vendor section is the \<open>L\<close> raw bytes followed by \<open>64 - L\<close> zero bytes,
  64 zero bytes when \<open>vendorField\<close> is absent. A vendor field that decodes to more than
  64 bytes makes the encoding fail. Conversely every encoding that succeeds, with a
  type hook that only appends, has this layout.
\<close>

theorem placeholder_sections:
  "(\<forall>spk rpk recipient raw f asset_bytes first second.
        0 \<le> tx_type t \<and> tx_type t < 2 ^ 8
      \<and> 0 \<le> timestamp t \<and> timestamp t < 2 ^ 32
      \<and> unhexlify (sender_public_key t) = Inr spk
      \<and> (if truthy (requester_public_key t)
          then unhexlify (the (requester_public_key t)) = Inr rpk else rpk = [])
      \<and> (if truthy (recipient_id t)
          then b58decode_check env (the (recipient_id t)) = Inr recipient
          else recipient = replicate 21 0)
      \<and> (if truthy (vendor_field t)
          then unhexlify (the (vendor_field t)) = Inr raw else raw = [])
      \<and> length raw \<le> 64
      \<and> 0 \<le> amount t \<and> amount t < 2 ^ 64
      \<and> fee t = Some f \<and> 0 \<le> f \<and> f < 2 ^ 64
      \<and> handle_transaction_type env t
            (canonical_fields t spk rpk recipient (raw @ replicate (64 - length raw) 0) f) =
          Inr (canonical_fields t spk rpk recipient (raw @ replicate (64 - length raw) 0) f
               @ asset_bytes)
      \<and> (if skip_signature then first = []
          else signature_bytes (signature t) = Inr first)
      \<and> (if skip_second_signature then second = []
          else signature_bytes (sign_signature t) = Inr second)
      \<longrightarrow> to_bytes env t skip_signature skip_second_signature =
            Inr (canonical_fields t spk rpk recipient (raw @ replicate (64 - length raw) 0) f
                 @ asset_bytes @ first @ second))
   \<and> (\<forall>vf raw. vendor_field t = Some vf \<and> unhexlify vf = Inr raw \<and> 64 < length raw \<longrightarrow>
          isl (to_bytes env t skip_signature skip_second_signature))
   \<and> ((\<forall>buffer buffer'. handle_transaction_type env t buffer = Inr buffer' \<longrightarrow>
           (\<exists>asset_bytes. buffer' = buffer @ asset_bytes)) \<longrightarrow>
        (\<forall>bs. to_bytes env t skip_signature skip_second_signature = Inr bs \<longrightarrow>
           (\<exists>spk rpk recipient vendor f asset_bytes sigs.
              bs = canonical_fields t spk rpk recipient vendor f @ asset_bytes @ sigs
            \<and> unhexlify (sender_public_key t) = Inr spk
            \<and> (if truthy (requester_public_key t)
                then unhexlify (the (requester_public_key t)) = Inr rpk else rpk = [])
            \<and> fee t = Some f
            \<and> (\<not> truthy (recipient_id t) \<longrightarrow> recipient = replicate 21 0)
            \<and> (\<not> truthy (vendor_field t) \<longrightarrow> vendor = replicate 64 0)
            \<and> (\<forall>vf raw. vendor_field t = Some vf \<and> unhexlify vf = Inr raw \<longrightarrow>
                  length raw \<le> 64 \<and> vendor = raw @ replicate (64 - length raw) 0))))"
proof (intro conjI)
  show "\<forall>spk rpk recipient raw f asset_bytes first second.
        0 \<le> tx_type t \<and> tx_type t < 2 ^ 8
      \<and> 0 \<le> timestamp t \<and> timestamp t < 2 ^ 32
      \<and> unhexlify (sender_public_key t) = Inr spk
      \<and> (if truthy (requester_public_key t)
          then unhexlify (the (requester_public_key t)) = Inr rpk else rpk = [])
      \<and> (if truthy (recipient_id t)
          then b58decode_check env (the (recipient_id t)) = Inr recipient
          else recipient = replicate 21 0)
      \<and> (if truthy (vendor_field t)
          then unhexlify (the (vendor_field t)) = Inr raw else raw = [])
      \<and> length raw \<le> 64
      \<and> 0 \<le> amount t \<and> amount t < 2 ^ 64
      \<and> fee t = Some f \<and> 0 \<le> f \<and> f < 2 ^ 64
      \<and> handle_transaction_type env t
            (canonical_fields t spk rpk recipient (raw @ replicate (64 - length raw) 0) f) =
          Inr (canonical_fields t spk rpk recipient (raw @ replicate (64 - length raw) 0) f
               @ asset_bytes)
      \<and> (if skip_signature then first = []
          else signature_bytes (signature t) = Inr first)
      \<and> (if skip_second_signature then second = []
          else signature_bytes (sign_signature t) = Inr second)
      \<longrightarrow> to_bytes env t skip_signature skip_second_signature =
            Inr (canonical_fields t spk rpk recipient (raw @ replicate (64 - length raw) 0) f
                 @ asset_bytes @ first @ second)"
  proof (intro allI impI, elim conjE)
    fix spk rpk recipient raw f asset_bytes first second
    assume a: "0 \<le> tx_type t" "tx_type t < 2 ^ 8" "0 \<le> timestamp t" "timestamp t < 2 ^ 32"
      "unhexlify (sender_public_key t) = Inr spk"
      "if truthy (requester_public_key t)
       then unhexlify (the (requester_public_key t)) = Inr rpk else rpk = []"
      "if truthy (recipient_id t)
       then b58decode_check env (the (recipient_id t)) = Inr recipient
       else recipient = replicate 21 0"
      "if truthy (vendor_field t)
       then unhexlify (the (vendor_field t)) = Inr raw else raw = []"
      "length raw \<le> 64"
      "0 \<le> amount t" "amount t < 2 ^ 64" "fee t = Some f" "0 \<le> f" "f < 2 ^ 64"
      "handle_transaction_type env t
         (canonical_fields t spk rpk recipient (raw @ replicate (64 - length raw) 0) f) =
       Inr (canonical_fields t spk rpk recipient (raw @ replicate (64 - length raw) 0) f
            @ asset_bytes)"
    assume s1: "if skip_signature then first = []
                else signature_bytes (signature t) = Inr first"
      and s2: "if skip_second_signature then second = []
               else signature_bytes (sign_signature t) = Inr second"
    have body: "to_bytes env t True True =
           Inr (canonical_fields t spk rpk recipient (raw @ replicate (64 - length raw) 0) f
                @ asset_bytes)"
      by (rule to_bytes_unsigned_produced [OF a])
    show "to_bytes env t skip_signature skip_second_signature =
            Inr (canonical_fields t spk rpk recipient (raw @ replicate (64 - length raw) 0) f
                 @ asset_bytes @ first @ second)"
      by (subst to_bytes_split)
         (simp only: body bind_err_simps handle_signature_produced [OF s1 s2] append_assoc)
  qed
next
  show "\<forall>vf raw. vendor_field t = Some vf \<and> unhexlify vf = Inr raw \<and> 64 < length raw \<longrightarrow>
          isl (to_bytes env t skip_signature skip_second_signature)"
    using long_vendor_rejected [of t _ _ env] by blast
next
  show "(\<forall>buffer buffer'. handle_transaction_type env t buffer = Inr buffer' \<longrightarrow>
           (\<exists>asset_bytes. buffer' = buffer @ asset_bytes)) \<longrightarrow>
        (\<forall>bs. to_bytes env t skip_signature skip_second_signature = Inr bs \<longrightarrow>
           (\<exists>spk rpk recipient vendor f asset_bytes sigs.
              bs = canonical_fields t spk rpk recipient vendor f @ asset_bytes @ sigs
            \<and> unhexlify (sender_public_key t) = Inr spk
            \<and> (if truthy (requester_public_key t)
                then unhexlify (the (requester_public_key t)) = Inr rpk else rpk = [])
            \<and> fee t = Some f
            \<and> (\<not> truthy (recipient_id t) \<longrightarrow> recipient = replicate 21 0)
            \<and> (\<not> truthy (vendor_field t) \<longrightarrow> vendor = replicate 64 0)
            \<and> (\<forall>vf raw. vendor_field t = Some vf \<and> unhexlify vf = Inr raw \<longrightarrow>
                  length raw \<le> 64 \<and> vendor = raw @ replicate (64 - length raw) 0)))"
  proof (intro impI)
    assume h: "\<forall>buffer buffer'. handle_transaction_type env t buffer = Inr buffer' \<longrightarrow>
           (\<exists>asset_bytes. buffer' = buffer @ asset_bytes)"
    then have h': "\<And>buffer buffer'. handle_transaction_type env t buffer = Inr buffer'
                   \<Longrightarrow> \<exists>asset. buffer' = buffer @ asset"
      by blast
    from to_bytes_layout [of env t skip_signature skip_second_signature, OF h', THEN conjunct1]
    show "\<forall>bs. to_bytes env t skip_signature skip_second_signature = Inr bs \<longrightarrow>
           (\<exists>spk rpk recipient vendor f asset_bytes sigs.
              bs = canonical_fields t spk rpk recipient vendor f @ asset_bytes @ sigs
            \<and> unhexlify (sender_public_key t) = Inr spk
            \<and> (if truthy (requester_public_key t)
                then unhexlify (the (requester_public_key t)) = Inr rpk else rpk = [])
            \<and> fee t = Some f
            \<and> (\<not> truthy (recipient_id t) \<longrightarrow> recipient = replicate 21 0)
            \<and> (\<not> truthy (vendor_field t) \<longrightarrow> vendor = replicate 64 0)
            \<and> (\<forall>vf raw. vendor_field t = Some vf \<and> unhexlify vf = Inr raw \<longrightarrow>
                  length raw \<le> 64 \<and> vendor = raw @ replicate (64 - length raw) 0))"
      unfolding canonical_fields_def append_assoc .
  qed
qed

text \<open>
  The scenario transaction with the 2-byte vendor field \<open>6869\<close> and no recipient, the
  scenario transaction itself, with neither, and the one with a vendor field of 65
  bytes.
\<close>

theorem placeholder_sections_witness:
  "recipient_id vendor_tx = None
   \<and> vendor_field vendor_tx = Some ''6869''
   \<and> unhexlify ''6869'' = Inr [0x68, 0x69]
   \<and> to_bytes sample_env vendor_tx False False =
       Inr (canonical_fields vendor_tx sample_key_bytes [] (replicate 21 0)
              ([0x68, 0x69] @ replicate 62 0) 10000000)
   \<and> recipient_id sample_tx = None
   \<and> vendor_field sample_tx = None
   \<and> to_bytes sample_env sample_tx False False =
       Inr (canonical_fields sample_tx sample_key_bytes [] (replicate 21 0)
              (replicate 64 0) 10000000)
   \<and> (\<exists>vf raw. vendor_field long_vendor_tx = Some vf \<and> unhexlify vf = Inr raw
         \<and> length raw = 65)
   \<and> isl (to_bytes sample_env long_vendor_tx False False)
   \<and> (\<exists>spk rpk f asset_bytes sigs.
         to_bytes sample_env vendor_tx True True =
           Inr (canonical_fields vendor_tx spk rpk (replicate 21 0)
                  ([0x68, 0x69] @ replicate 62 0) f @ asset_bytes @ sigs))"
proof -
  have u: "unhexlify ''6869'' = Inr [0x68, 0x69]"
    by (simp add: hex_val_def)
  note prod_v = placeholder_sections [of vendor_tx sample_env False False, THEN conjunct1,
      rule_format, of sample_key_bytes "[]" "replicate 21 0" "[0x68, 0x69]" 10000000 "[]"
      "[]" "[]"]
  have e1: "to_bytes sample_env vendor_tx False False =
       Inr (canonical_fields vendor_tx sample_key_bytes [] (replicate 21 0)
              ([0x68, 0x69] @ replicate 62 0) 10000000)"
    using prod_v
    by (simp add: vendor_tx_fields unhexlify_sample_key hex_val_def sample_hook
        signature_bytes_def)
  note prod_s = placeholder_sections [of sample_tx sample_env False False, THEN conjunct1,
      rule_format, of sample_key_bytes "[]" "replicate 21 0" "[]" 10000000 "[]" "[]" "[]"]
  have e2: "to_bytes sample_env sample_tx False False =
       Inr (canonical_fields sample_tx sample_key_bytes [] (replicate 21 0)
              (replicate 64 0) 10000000)"
    using prod_s
    by (simp add: sample_tx_fields unhexlify_sample_key sample_hook signature_bytes_def)
  have lv: "\<exists>vf raw. vendor_field long_vendor_tx = Some vf \<and> unhexlify vf = Inr raw
              \<and> length raw = 65"
    by (simp add: long_vendor_tx_def sample_tx_def init_def hex_val_def)
  then obtain vf raw where vf: "vendor_field long_vendor_tx = Some vf"
    and raw: "unhexlify vf = Inr raw" and len: "length raw = 65"
    by blast
  from len have "64 < length raw" by simp
  with placeholder_sections [of long_vendor_tx sample_env False False,
      THEN conjunct2, THEN conjunct1] vf raw
  have rej: "isl (to_bytes sample_env long_vendor_tx False False)"
    by blast
  have hook: "\<forall>buffer buffer'. handle_transaction_type sample_env vendor_tx buffer = Inr buffer'
                \<longrightarrow> (\<exists>asset_bytes. buffer' = buffer @ asset_bytes)"
    by (simp add: sample_hook)
  have ok: "\<exists>bs. to_bytes sample_env vendor_tx True True = Inr bs"
    by (simp add: eval_defs)
  then obtain bs where bs: "to_bytes sample_env vendor_tx True True = Inr bs" ..
  from placeholder_sections [of vendor_tx sample_env True True, THEN conjunct2,
      THEN conjunct2, THEN mp, OF hook, rule_format, OF bs]
  obtain spk rpk recipient vendor f asset_bytes sigs where
    eq: "bs = canonical_fields vendor_tx spk rpk recipient vendor f @ asset_bytes @ sigs"
    and r': "\<not> truthy (recipient_id vendor_tx) \<longrightarrow> recipient = replicate 21 0"
    and v': "\<forall>vf raw. vendor_field vendor_tx = Some vf \<and> unhexlify vf = Inr raw \<longrightarrow>
               length raw \<le> 64 \<and> vendor = raw @ replicate (64 - length raw) 0"
    by blast
  from r' have rc: "recipient = replicate 21 0"
    by (simp add: vendor_tx_fields)
  from v' [rule_format, of "''6869''" "[0x68, 0x69]"] u
  have vn: "vendor = [0x68, 0x69] @ replicate 62 0"
    by (simp add: vendor_tx_fields)
  have ex: "\<exists>spk rpk f asset_bytes sigs.
         to_bytes sample_env vendor_tx True True =
           Inr (canonical_fields vendor_tx spk rpk (replicate 21 0)
                  ([0x68, 0x69] @ replicate 62 0) f @ asset_bytes @ sigs)"
    unfolding bs using eq rc vn by blast
  show ?thesis
    by (intro conjI vendor_tx_fields(6) vendor_tx_fields(7) u e1 sample_tx_fields(6)
        sample_tx_fields(7) e2 lv rej ex)
qed

section \<open>The scenario\<close>

text \<open>
  Claim C7, as amended. For a transaction of type 0 with timestamp 10000000, a sender
  key of 33 bytes, amount 100000000, fee 10000000, no requester key, no recipient, no
  vendor field, and a type hook that appends nothing, the unsigned encoding is the 139
  bytes type (1), timestamp (4), key (33), 21 zeros, 64 zeros, amount (8), fee (8); and
  when no signature is stored, \<open>_get_id\<close> is the hex digest of the hash of those bytes.
\<close>

theorem scenario_encoding:
  assumes "tx_type t = 0" and "timestamp t = 10000000"
      and "unhexlify (sender_public_key t) = Inr spk" and "length spk = 33"
      and "amount t = 100000000" and "fee t = Some 10000000"
      and "requester_public_key t = None" and "recipient_id t = None"
      and "vendor_field t = None"
      and hook: "\<And>buffer. handle_transaction_type env t buffer = Inr buffer"
  shows "to_bytes env t True True = Inr (scenario_bytes spk)
       \<and> length (scenario_bytes spk) = 139
       \<and> (signature t = None \<and> sign_signature t = None \<longrightarrow>
            get_id env t = Inr (hexlify (sha256 env (scenario_bytes spk))))"
proof -
  have enc: "to_bytes env t True True = Inr (scenario_bytes spk)"
    using assms
    by (simp add: to_bytes_def write_byte_def write_int_def write_long_def write_bytes_def
        le_bytes_1 le_bytes_4 le_bytes_8 py_bytes_def Buffer_new_def Buffer_to_bytes_def
        scenario_bytes_def)
  have len: "length (scenario_bytes spk) = 139"
    using assms(4) by (simp add: scenario_bytes_def)
  have gid: "get_id env t = Inr (hexlify (sha256 env (scenario_bytes spk)))"
    if "signature t = None" and "sign_signature t = None"
    using that
    by (simp add: get_id_def to_bytes_split [of env t False False] enc handle_signature_def)
  show ?thesis
    using gid by (intro conjI impI enc len) simp
qed

text \<open>The scenario transaction as constructed, unsigned.\<close>

theorem scenario_encoding_witness:
  "tx_type sample_tx = 0 \<and> timestamp sample_tx = 10000000
   \<and> unhexlify (sender_public_key sample_tx) = Inr sample_key_bytes
   \<and> length sample_key_bytes = 33
   \<and> amount sample_tx = 100000000 \<and> fee sample_tx = Some 10000000
   \<and> requester_public_key sample_tx = None \<and> recipient_id sample_tx = None
   \<and> vendor_field sample_tx = None
   \<and> handle_transaction_type sample_env sample_tx = Inr
   \<and> signature sample_tx = None \<and> sign_signature sample_tx = None
   \<and> to_bytes sample_env sample_tx True True = Inr (scenario_bytes sample_key_bytes)
   \<and> length (scenario_bytes sample_key_bytes) = 139
   \<and> get_id sample_env sample_tx =
       Inr (hexlify (sha256 sample_env (scenario_bytes sample_key_bytes)))"
proof -
  have k: "unhexlify (sender_public_key sample_tx) = Inr sample_key_bytes"
    by (simp add: sample_tx_fields unhexlify_sample_key)
  have h: "\<And>buffer. handle_transaction_type sample_env sample_tx buffer = Inr buffer"
    by (simp add: sample_hook)
  note r = scenario_encoding [OF sample_tx_fields(1) sample_tx_fields(2) k
      length_sample_key_bytes sample_tx_fields(3) sample_tx_fields(4) sample_tx_fields(5)
      sample_tx_fields(6) sample_tx_fields(7) h]
  from r have a: "to_bytes sample_env sample_tx True True = Inr (scenario_bytes sample_key_bytes)"
    and b: "length (scenario_bytes sample_key_bytes) = 139"
    by (rule conjunct1, rule conjunct2 [THEN conjunct1])
  from r sample_tx_fields(8) sample_tx_fields(9)
  have c: "get_id sample_env sample_tx =
       Inr (hexlify (sha256 sample_env (scenario_bytes sample_key_bytes)))"
    by (rule conjunct2 [THEN conjunct2, THEN mp, OF _ conjI])
  show ?thesis
    by (intro conjI sample_tx_fields k length_sample_key_bytes sample_hook a b c)
qed

text \<open>
  The claim as stated covers every transaction with these fields. The signed scenario
  transaction has them all, and its identifier is not the digest of the 139 bytes:
  \<open>_get_id\<close> hashes the signature as well.
\<close>

theorem scenario_id_counterexample:
  "tx_type signed_tx = 0 \<and> timestamp signed_tx = 10000000
   \<and> unhexlify (sender_public_key signed_tx) = Inr sample_key_bytes
   \<and> length sample_key_bytes = 33
   \<and> amount signed_tx = 100000000 \<and> fee signed_tx = Some 10000000
   \<and> requester_public_key signed_tx = None \<and> recipient_id signed_tx = None
   \<and> vendor_field signed_tx = None
   \<and> handle_transaction_type sample_env signed_tx = Inr
   \<and> to_bytes sample_env signed_tx True True = Inr (scenario_bytes sample_key_bytes)
   \<and> length (scenario_bytes sample_key_bytes) = 139
   \<and> get_id sample_env signed_tx \<noteq>
       Inr (hexlify (sha256 sample_env (scenario_bytes sample_key_bytes)))"
proof -
  have k: "unhexlify (sender_public_key signed_tx) = Inr sample_key_bytes"
    by (simp add: signed_tx_fields unhexlify_sample_key)
  have a: "to_bytes sample_env signed_tx True True = Inr (scenario_bytes sample_key_bytes)"
    by (simp add: scenario_bytes_sample to_bytes_signed_tx)
  have b: "length (scenario_bytes sample_key_bytes) = 139"
    by (simp add: scenario_bytes_sample length_sample_bytes)
  have g: "get_id sample_env signed_tx \<noteq>
       Inr (hexlify (sha256 sample_env (scenario_bytes sample_key_bytes)))"
    by (simp add: get_id_def to_bytes_signed_tx scenario_bytes_sample) (simp add: sample_env_def)
  show ?thesis
    by (intro conjI signed_tx_fields k length_sample_key_bytes sample_hook a b g)
qed

section \<open>Verification\<close>

lemma isl_bind_err_iff: "isl (bind_err r f) = (case r of Inl e \<Rightarrow> True | Inr v \<Rightarrow> isl (f v))"
  by (cases r) simp_all

text \<open>The arguments the two verification methods pass on, in full.\<close>

lemma verify_args_eq:
  "verify_args env t =
     bind_err (to_bytes env t True True) (\<lambda>body.
     bind_err (signature_bytes (signature t)) (\<lambda>first.
     Inr (sender_public_key t, sha256 env (body @ first), signature t)))"
  by (simp add: verify_args_def get_hash_def to_bytes_split [of env t False True]
      handle_signature_include bind_err_assoc)

lemma second_verify_args_eq:
  "second_verify_args env t =
     bind_err (to_bytes env t True True) (\<lambda>body.
     bind_err (signature_bytes (signature t)) (\<lambda>first.
     bind_err (signature_bytes (sign_signature t)) (\<lambda>second.
     Inr (sender_public_key t, sha256 env (body @ first @ second), sign_signature t))))"
  by (simp add: second_verify_args_def get_hash_def to_bytes_split [of env t False False]
      handle_signature_include bind_err_assoc)

text \<open>Neither method has a \<open>return\<close>: whatever the primitive answers, the caller gets \<open>None\<close>.\<close>

lemma verify_returns_None: "verify env t = Inr v \<Longrightarrow> v = PyNone"
  by (auto simp: verify_def bind_err_def split: sum.splits prod.splits)

lemma second_verify_returns_None: "second_verify env t = Inr v \<Longrightarrow> v = PyNone"
  by (auto simp: second_verify_def bind_err_def split: sum.splits prod.splits)

text \<open>
  Claim C2, as amended. For a transaction whose fields encode and whose stored
  signatures decode, \<open>second_verify\<close> calls the verify primitive with \<open>senderPublicKey\<close>,
  with \<open>secondSignature\<close>, and with the hash of bytes encoded with
  \<open>skip_signature = False\<close>: the fully unsigned bytes followed by the bytes of the
  stored first signature, with or without the second signature's own bytes after
  them; and it raises then exactly when the primitive does.
\<close>

theorem second_verify_hashes_first_signature:
  assumes "to_bytes env t True True = Inr body"
      and "signature_bytes (signature t) = Inr first"
      and "signature_bytes (sign_signature t) = Inr second"
  shows "\<exists>rest. (rest = [] \<or> rest = second)
         \<and> second_verify_args env t =
             Inr (sender_public_key t, sha256 env (body @ first @ rest), sign_signature t)
         \<and> isl (second_verify env t) =
             isl (signature_verify env (sender_public_key t)
                    (sha256 env (body @ first @ rest)) (sign_signature t))"
proof -
  have a: "second_verify_args env t =
             Inr (sender_public_key t, sha256 env (body @ first @ second), sign_signature t)"
    by (simp add: second_verify_args_eq assms)
  have r: "isl (second_verify env t) =
             isl (signature_verify env (sender_public_key t)
                    (sha256 env (body @ first @ second)) (sign_signature t))"
    by (simp add: second_verify_def a isl_bind_err_iff split: sum.splits)
  from a r show ?thesis
    by (intro exI [of _ second] conjI disjI2 refl)
qed

text \<open>The scenario transaction with both signatures stored.\<close>

theorem second_verify_hashes_first_signature_witness:
  "to_bytes sample_env twice_signed_tx True True = Inr sample_bytes
   \<and> signature_bytes (signature twice_signed_tx) = Inr [0x30, 6, 2, 1, 1, 2, 1, 1]
   \<and> signature_bytes (sign_signature twice_signed_tx) = Inr [0x30, 6, 2, 1, 2, 2, 1, 2]
   \<and> (\<exists>rest. (rest = [] \<or> rest = [0x30, 6, 2, 1, 2, 2, 1, 2])
         \<and> second_verify_args sample_env twice_signed_tx =
             Inr (sender_public_key twice_signed_tx,
                  sha256 sample_env (sample_bytes @ [0x30, 6, 2, 1, 1, 2, 1, 1] @ rest),
                  sign_signature twice_signed_tx))"
proof -
  have b: "to_bytes sample_env twice_signed_tx True True = Inr sample_bytes"
    by (rule to_bytes_twice_signed_tx)
  have f: "signature_bytes (signature twice_signed_tx) = Inr [0x30, 6, 2, 1, 1, 2, 1, 1]"
    by (simp add: signature_bytes_def twice_signed_tx_def signed_tx_def hex_val_def)
  have s: "signature_bytes (sign_signature twice_signed_tx) =
             Inr [0x30, 6, 2, 1, 2, 2, 1, 2]"
    by (simp add: signature_bytes_def twice_signed_tx_def signed_tx_def hex_val_def)
  from second_verify_hashes_first_signature [OF b f s]
  have e: "\<exists>rest. (rest = [] \<or> rest = [0x30, 6, 2, 1, 2, 2, 1, 2])
         \<and> second_verify_args sample_env twice_signed_tx =
             Inr (sender_public_key twice_signed_tx,
                  sha256 sample_env (sample_bytes @ [0x30, 6, 2, 1, 1, 2, 1, 1] @ rest),
                  sign_signature twice_signed_tx)"
    by (elim exE conjE, intro exI conjI)
  from b f s e show ?thesis
    by (intro conjI)
qed

text \<open>
  The claim as stated has the hash be that of the fully unsigned bytes. On the scenario
  transaction with both signatures stored it is the hash of other bytes.
\<close>

theorem second_verify_unsigned_hash_counterexample:
  "sign_signature twice_signed_tx = Some ''3006020102020102''
   \<and> get_hash sample_env twice_signed_tx True True = Inr (sha256 sample_env sample_bytes)
   \<and> second_verify_args sample_env twice_signed_tx \<noteq>
       Inr (sender_public_key twice_signed_tx, sha256 sample_env sample_bytes,
            sign_signature twice_signed_tx)"
  by (simp add: second_verify_args_def get_hash_def to_bytes_twice_signed_tx)
     (simp add: twice_signed_tx_def sample_env_def)

text \<open>
  Claim C3 fails on the code. \<open>_sign\<close> hashes the encoding with both signatures
  skipped; \<open>verify\<close> hashes \<open>_to_bytes(False, True)\<close>, which by then contains the
  signature just stored, and returns \<open>None\<close> whatever the primitive answers. On the
  scenario transaction: signing gives the signed transaction, the hash signed is that
  of the 139 bytes, the hash verified is that of the 139 bytes and the signature, and
  the primitive's \<open>True\<close> is dropped.
\<close>

theorem verify_after_sign:
  "sign sample_env ''secret'' sample_tx = Inr signed_tx
   \<and> get_hash sample_env sample_tx True True = Inr (sha256 sample_env sample_bytes)
   \<and> verify_args sample_env signed_tx =
       Inr (sample_key, sha256 sample_env (sample_bytes @ [0x30, 6, 2, 1, 1, 2, 1, 1]),
            Some ''3006020101020101'')
   \<and> sha256 sample_env (sample_bytes @ [0x30, 6, 2, 1, 1, 2, 1, 1]) \<noteq>
       sha256 sample_env sample_bytes
   \<and> signature_verify sample_env sample_key
        (sha256 sample_env (sample_bytes @ [0x30, 6, 2, 1, 1, 2, 1, 1]))
        (Some ''3006020101020101'') = Inr True
   \<and> verify sample_env signed_tx = Inr PyNone"
proof -
  have a: "verify_args sample_env signed_tx =
       Inr (sample_key, sha256 sample_env (sample_bytes @ [0x30, 6, 2, 1, 1, 2, 1, 1]),
            Some ''3006020101020101'')"
    by (simp add: verify_args_def get_hash_def to_bytes_signed_tx signed_tx_fields)
  have b: "get_hash sample_env sample_tx True True = Inr (sha256 sample_env sample_bytes)"
    by (simp add: get_hash_def to_bytes_sample_tx)
  have c: "sha256 sample_env (sample_bytes @ [0x30, 6, 2, 1, 1, 2, 1, 1]) \<noteq>
       sha256 sample_env sample_bytes"
    by (simp add: sample_env_def)
  have d: "signature_verify sample_env sample_key
        (sha256 sample_env (sample_bytes @ [0x30, 6, 2, 1, 1, 2, 1, 1]))
        (Some ''3006020101020101'') = Inr True"
    by (simp add: sample_env_def)
  have e: "verify sample_env signed_tx = Inr PyNone"
    by (simp add: verify_def a d)
  show ?thesis
    by (intro conjI sign_sample_tx a b c d e)
qed

section \<open>The dictionary\<close>

text \<open>
  Claim C9, as amended. \<open>to_dict\<close> returns a dictionary of eleven entries with distinct
  keys. Ten keys are \<open>type\<close>, \<open>amount\<close>, \<open>fee\<close>, \<open>asset\<close>, \<open>id\<close>, \<open>recipientId\<close>,
  \<open>timestamp\<close>, \<open>senderPublicKey\<close>, \<open>signature\<close> and \<open>signSignature\<close>, each mapped to the
  current value of its field, the second signature under \<open>signSignature\<close>; the eleventh
  entry holds the vendor field. \<open>to_dict\<close> is a function of the transaction and returns
  the dictionary only: no field is assigned.
\<close>

theorem to_dict_entries:
  "map_of (to_dict t) ''type'' = Some (PyInt (tx_type t))
   \<and> map_of (to_dict t) ''amount'' = Some (PyInt (amount t))
   \<and> map_of (to_dict t) ''fee'' = Some (opt_int (fee t))
   \<and> map_of (to_dict t) ''asset'' = Some (PyDict (asset t))
   \<and> map_of (to_dict t) ''id'' = Some (opt_str (tx_id t))
   \<and> map_of (to_dict t) ''recipientId'' = Some (opt_str (recipient_id t))
   \<and> map_of (to_dict t) ''timestamp'' = Some (PyInt (timestamp t))
   \<and> map_of (to_dict t) ''senderPublicKey'' = Some (PyStr (sender_public_key t))
   \<and> map_of (to_dict t) ''signature'' = Some (opt_str (signature t))
   \<and> map_of (to_dict t) ''signSignature'' = Some (opt_str (sign_signature t))
   \<and> length (to_dict t) = 11
   \<and> distinct (map fst (to_dict t))
   \<and> (\<exists>k. k \<notin> {''type'', ''amount'', ''fee'', ''asset'', ''id'', ''recipientId'',
                ''timestamp'', ''senderPublicKey'', ''signature'', ''signSignature''}
          \<and> map_of (to_dict t) k = Some (opt_str (vendor_field t)))"
proof -
  have v: "\<exists>k. k \<notin> {''type'', ''amount'', ''fee'', ''asset'', ''id'', ''recipientId'',
                ''timestamp'', ''senderPublicKey'', ''signature'', ''signSignature''}
          \<and> map_of (to_dict t) k = Some (opt_str (vendor_field t))"
    by (rule exI [of _ "''venderField''"]) (simp add: to_dict_def)
  show ?thesis
    by (intro conjI v) (simp_all add: to_dict_def)
qed

text \<open>The scenario transaction with both signatures stored.\<close>

theorem to_dict_entries_witness:
  "map_of (to_dict twice_signed_tx) ''type'' = Some (PyInt 0)
   \<and> map_of (to_dict twice_signed_tx) ''fee'' = Some (PyInt 10000000)
   \<and> map_of (to_dict twice_signed_tx) ''id'' = Some PyNone
   \<and> map_of (to_dict twice_signed_tx) ''signature'' = Some (PyStr ''3006020101020101'')
   \<and> map_of (to_dict twice_signed_tx) ''signSignature'' = Some (PyStr ''3006020102020102'')"
  using to_dict_entries [of twice_signed_tx]
  by (simp add: twice_signed_tx_def signed_tx_def sample_tx_def init_def opt_str_def
      opt_int_def)

text \<open>
  The claim as stated names the keys \<open>vendorField\<close> and \<open>secondSignature\<close>. The
  dictionary has neither.
\<close>

theorem to_dict_keys_counterexample:
  "map_of (to_dict twice_signed_tx) ''secondSignature'' = None
   \<and> map_of (to_dict twice_signed_tx) ''vendorField'' = None
   \<and> set (map fst (to_dict twice_signed_tx)) \<noteq>
       {''type'', ''amount'', ''fee'', ''asset'', ''id'', ''recipientId'', ''vendorField'',
        ''timestamp'', ''senderPublicKey'', ''signature'', ''secondSignature''}"
proof -
  have a: "map_of (to_dict twice_signed_tx) ''secondSignature'' = None"
    and b: "map_of (to_dict twice_signed_tx) ''vendorField'' = None"
    by (simp_all add: to_dict_def)
  have n: "''secondSignature'' \<notin> set (map fst (to_dict twice_signed_tx))"
    by (simp add: to_dict_def)
  have m: "''secondSignature'' \<in>
       {''type'', ''amount'', ''fee'', ''asset'', ''id'', ''recipientId'', ''vendorField'',
        ''timestamp'', ''senderPublicKey'', ''signature'', ''secondSignature''}"
    by (rule insertI1 | rule insertI2)+
  have c: "set (map fst (to_dict twice_signed_tx)) \<noteq>
       {''type'', ''amount'', ''fee'', ''asset'', ''id'', ''recipientId'', ''vendorField'',
        ''timestamp'', ''senderPublicKey'', ''signature'', ''secondSignature''}"
  proof
    assume e: "set (map fst (to_dict twice_signed_tx)) =
       {''type'', ''amount'', ''fee'', ''asset'', ''id'', ''recipientId'', ''vendorField'',
        ''timestamp'', ''senderPublicKey'', ''signature'', ''secondSignature''}"
    from m have "''secondSignature'' \<in> set (map fst (to_dict twice_signed_tx))"
      by (simp only: e)
    with n show False
      by (rule notE)
  qed
  from a b c show ?thesis
    by (intro conjI)
qed

end
